theory Spec2Isabelle
  imports Complex_Main "HOL-Library.Word"
begin

section \<open>Data model\<close>

subsection \<open>C values\<close>

text \<open>
  A pointer is either the null pointer or the address of a block.  The plugin only stores,
  copies and returns \<^verbatim>\<open>double\<close> values that are written as literals in the source
  (\<^verbatim>\<open>1.0\<close>, \<^verbatim>\<open>440.0\<close>, \<^verbatim>\<open>0.0\<close>); it performs no floating-point arithmetic, so a
  \<^verbatim>\<open>double\<close> is modelled by the real number it denotes.
\<close>

type_synonym addr = nat

datatype ptr = NULL | Ptr addr

type_synonym double = real

text \<open>
  A C string is a byte buffer read up to its first NUL.  A buffer that holds no NUL is read
  to its end, so a HOL string without NUL is the C string with the same characters.
\<close>

definition NUL :: char where
  "NUL = CHR 0x00"

definition c_str :: "string \<Rightarrow> string" where
  "c_str buf = takeWhile (\<lambda>c. c \<noteq> NUL) buf"

text \<open>
  \<^verbatim>\<open>strcmp\<close> of the C library: the difference of the first pair of differing bytes (as
  unsigned chars), 0 when both strings end together.
\<close>

fun strcmp :: "string \<Rightarrow> string \<Rightarrow> int" where
  "strcmp [] [] = 0"
| "strcmp [] (y # ys) = - of_char y"
| "strcmp (x # xs) [] = of_char x"
| "strcmp (x # xs) (y # ys) =
     (if x \<noteq> y then of_char x - of_char y
      else if x = NUL then 0
      else strcmp xs ys)"

subsection \<open>The plugin instance\<close>

text \<open>
  \<^verbatim>\<open>typedef struct { uint64_t id; double amplitude; double frequency;
  char output_path[256]; } ExamplePlugin;\<close>
  The field \<^verbatim>\<open>id\<close> is named \<open>id_field\<close> here, \<open>id\<close> being the identity function of HOL.
\<close>

record ExamplePlugin =
  id_field :: "64 word"
  amplitude :: double
  frequency :: double
  output_path :: string

subsection \<open>Documents and fields of the UI library\<close>

text \<open>
  The serialized documents of the library (\<^verbatim>\<open>rtsyn_plugin_ui.h\<close>) are JSON texts; the
  library's text layout is not part of the repository's sources, so a document it returns is
  modelled by the JSON value it denotes.
\<close>

datatype json =
    JNull
  | JBool bool
  | JInt int
  | JNum double
  | JString string
  | JArray "json list"
  | JObject "(string \<times> json) list"

text \<open>
  A config field: the five variants of the constructors \<^verbatim>\<open>rtsyn_ui_field_text\<close>,
  \<^verbatim>\<open>_integer\<close>, \<^verbatim>\<open>_float\<close>, \<^verbatim>\<open>_boolean\<close> and \<^verbatim>\<open>_filepath\<close>, each with key and label first.
  An optional string is \<open>None\<close> for a \<^verbatim>\<open>NULL\<close> argument.
\<close>

datatype RTSynConfigField =
    TextField string string "string option"
  | IntegerField string string "64 word" "64 word" "64 word"
  | FloatField string string double double double
  | BooleanField string string bool
  | FilePathField string string "string option" int

definition RTSYN_FILE_MODE_OPEN :: int where "RTSYN_FILE_MODE_OPEN = 0"
definition RTSYN_FILE_MODE_SAVE :: int where "RTSYN_FILE_MODE_SAVE = 1"
definition RTSYN_FILE_MODE_FOLDER :: int where "RTSYN_FILE_MODE_FOLDER = 2"

definition RTSYN_EXTENDABLE_NONE :: int where "RTSYN_EXTENDABLE_NONE = 0"
definition RTSYN_EXTENDABLE_MANUAL :: int where "RTSYN_EXTENDABLE_MANUAL = 1"
definition RTSYN_EXTENDABLE_AUTO :: int where "RTSYN_EXTENDABLE_AUTO = 2"

subsection \<open>The store\<close>

text \<open>
  The heap maps the address of every live block to its content.  What the allocator will
  answer to the coming requests is part of the state: each request takes the next grant,
  which is either a refusal or a block, given by its address and the indeterminate bytes
  it holds.  With no grant left the allocator refuses.
\<close>

datatype obj =
    Instance ExamplePlugin
  | CString string
  | Schema "RTSynConfigField list"
  | ConfigField RTSynConfigField
  | Document json

datatype grant = Exhausted | Block addr string

record state =
  heap :: "addr \<rightharpoonup> obj"
  grants :: "grant list"

text \<open>
  A call that has no defined outcome: undefined behaviour of the C program (a read or a
  release through a bad pointer), or a call of the UI library that its specification gives
  no meaning to.
\<close>

datatype fault = InvalidPointer | Unspecified

type_synonym 'a result = "fault + 'a \<times> state"

text \<open>Sequencing of calls: a fault ends the sequence, as undefined behaviour does.\<close>

definition and_then :: "'a result \<Rightarrow> ('a \<Rightarrow> state \<Rightarrow> 'b result) \<Rightarrow> 'b result" where
  "and_then r f = (case r of Inl e \<Rightarrow> Inl e | Inr (x, s) \<Rightarrow> f x s)"

definition malloc :: "state \<Rightarrow> (addr \<times> string) option \<times> state" where
  "malloc s =
     (case grants s of
        [] \<Rightarrow> (None, s)
      | Exhausted # gs \<Rightarrow> (None, s\<lparr>grants := gs\<rparr>)
      | Block a junk # gs \<Rightarrow> (Some (a, junk), s\<lparr>grants := gs\<rparr>))"

definition store :: "addr \<Rightarrow> obj \<Rightarrow> state \<Rightarrow> state" where
  "store a v s = s\<lparr>heap := (heap s)(a \<mapsto> v)\<rparr>"

text \<open>\<^verbatim>\<open>free\<close> of the C library: nothing for the null pointer, the block is gone otherwise.\<close>

definition free :: "ptr \<Rightarrow> state \<Rightarrow> fault + state" where
  "free p s =
     (case p of
        NULL \<Rightarrow> Inr s
      | Ptr a \<Rightarrow>
          (case heap s a of
             None \<Rightarrow> Inl InvalidPointer
           | Some v \<Rightarrow> Inr (s\<lparr>heap := (heap s)(a := None)\<rparr>)))"

text \<open>\<^verbatim>\<open>strdup\<close>: a copy of the text in a block of its own, or \<^verbatim>\<open>NULL\<close>.\<close>

definition strdup :: "string \<Rightarrow> state \<Rightarrow> ptr \<times> state" where
  "strdup txt s =
     (case malloc s of
        (None, s1) \<Rightarrow> (NULL, s1)
      | (Some (a, junk), s1) \<Rightarrow> (Ptr a, store a (CString (c_str txt)) s1))"

text \<open>The allocator never hands out a live block, nor the same block twice.\<close>

fun grant_addrs :: "grant list \<Rightarrow> addr list" where
  "grant_addrs [] = []"
| "grant_addrs (Exhausted # gs) = grant_addrs gs"
| "grant_addrs (Block a junk # gs) = a # grant_addrs gs"

definition allocator_ok :: "state \<Rightarrow> bool" where
  "allocator_ok s \<longleftrightarrow>
     distinct (grant_addrs (grants s)) \<and> (\<forall>a \<in> set (grant_addrs (grants s)). heap s a = None)"

section \<open>The UI library\<close>

text \<open>
  The header \<^verbatim>\<open>rtsyn_plugin_ui.h\<close> declares the library's functions; their bodies are not
  among the sources.  The functions the example plugin calls, and the release of a returned
  string, are modelled from the specification.  Where it is silent (a null or dead pointer argument, an extendable-inputs
  code that is none of the three constants) the model answers \<open>Unspecified\<close>.
\<close>

text \<open>Modelled from the spec: the body of \<^verbatim>\<open>rtsyn_ui_schema_new\<close> is missing.  It gives an
  empty schema owned by the caller; an allocation failure is signalled by a null result.\<close>

definition rtsyn_ui_schema_new :: "state \<Rightarrow> ptr result" where
  "rtsyn_ui_schema_new s =
     (case malloc s of
        (None, s1) \<Rightarrow> Inr (NULL, s1)
      | (Some (a, junk), s1) \<Rightarrow> Inr (Ptr a, store a (Schema []) s1))"

text \<open>Modelled from the spec: the bodies of the field constructors are missing.  Each is a
  factory that returns a new, independently owned field with the given attributes and has
  no other effect; an allocation failure yields a null result.\<close>

definition new_field :: "RTSynConfigField \<Rightarrow> state \<Rightarrow> ptr result" where
  "new_field f s =
     (case malloc s of
        (None, s1) \<Rightarrow> Inr (NULL, s1)
      | (Some (a, junk), s1) \<Rightarrow> Inr (Ptr a, store a (ConfigField f) s1))"

text \<open>Modelled from the spec: \<^verbatim>\<open>rtsyn_ui_field_text(key, label, default_value)\<close>, whose body
  is missing; the default may be \<^verbatim>\<open>NULL\<close>.\<close>

definition rtsyn_ui_field_text :: "string \<Rightarrow> string \<Rightarrow> string option \<Rightarrow> state \<Rightarrow> ptr result" where
  "rtsyn_ui_field_text key label default_value s = new_field (TextField key label default_value) s"

text \<open>Modelled from the spec: \<^verbatim>\<open>rtsyn_ui_field_integer(key, label, default_value, min, max)\<close>,
  whose body is missing; the bounds are not checked.\<close>

definition rtsyn_ui_field_integer ::
  "string \<Rightarrow> string \<Rightarrow> 64 word \<Rightarrow> 64 word \<Rightarrow> 64 word \<Rightarrow> state \<Rightarrow> ptr result" where
  "rtsyn_ui_field_integer key label default_value lo hi s =
     new_field (IntegerField key label default_value lo hi) s"

text \<open>Modelled from the spec: \<^verbatim>\<open>rtsyn_ui_field_float(key, label, default_value, min, max)\<close>,
  whose body is missing; the bounds are not checked.\<close>

definition rtsyn_ui_field_float ::
  "string \<Rightarrow> string \<Rightarrow> double \<Rightarrow> double \<Rightarrow> double \<Rightarrow> state \<Rightarrow> ptr result" where
  "rtsyn_ui_field_float key label default_value lo hi s =
     new_field (FloatField key label default_value lo hi) s"

text \<open>Modelled from the spec: \<^verbatim>\<open>rtsyn_ui_field_boolean(key, label, default_value)\<close>, whose
  body is missing; the default is false for 0 and true otherwise.\<close>

definition rtsyn_ui_field_boolean :: "string \<Rightarrow> string \<Rightarrow> int \<Rightarrow> state \<Rightarrow> ptr result" where
  "rtsyn_ui_field_boolean key label default_value s =
     new_field (BooleanField key label (default_value \<noteq> 0)) s"

text \<open>Modelled from the spec: \<^verbatim>\<open>rtsyn_ui_field_filepath(key, label, default_path, mode)\<close>,
  whose body is missing; the default may be \<^verbatim>\<open>NULL\<close>, the mode is kept as given.\<close>

definition rtsyn_ui_field_filepath ::
  "string \<Rightarrow> string \<Rightarrow> string option \<Rightarrow> int \<Rightarrow> state \<Rightarrow> ptr result" where
  "rtsyn_ui_field_filepath key label default_path mode s =
     new_field (FilePathField key label default_path mode) s"

text \<open>Modelled from the spec: the body of \<^verbatim>\<open>rtsyn_ui_schema_add_field\<close> is missing.  It
  appends the field at the end of the schema's sequence; the schema then owns the field,
  which is no longer an object of its own.\<close>

definition rtsyn_ui_schema_add_field :: "ptr \<Rightarrow> ptr \<Rightarrow> state \<Rightarrow> unit result" where
  "rtsyn_ui_schema_add_field schema field s =
     (case (schema, field) of
        (Ptr sa, Ptr fa) \<Rightarrow>
          (case (heap s sa, heap s fa) of
             (Some (Schema fs), Some (ConfigField f)) \<Rightarrow>
               Inr ((), s\<lparr>heap := ((heap s)(fa := None))(sa \<mapsto> Schema (fs @ [f]))\<rparr>)
           | _ \<Rightarrow> Inl Unspecified)
      | _ \<Rightarrow> Inl Unspecified)"

text \<open>Modelled from the spec: the encoding of one field in the serialized schema, part of the
  missing body of \<^verbatim>\<open>rtsyn_ui_schema_to_json\<close>.  An entry holds the discriminant tag \<open>type\<close>,
  then \<open>key\<close>, \<open>label\<close>, \<open>default\<close> and the bounds or the mode of the variant.  The
  specification gives no names for the bounds and the mode; the header's parameter names
  are used.\<close>

definition opt_string :: "string option \<Rightarrow> json" where
  "opt_string v = (case v of None \<Rightarrow> JNull | Some x \<Rightarrow> JString x)"

fun field_document :: "RTSynConfigField \<Rightarrow> json" where
  "field_document (TextField key label d) =
     JObject [(''type'', JString ''text''), (''key'', JString key), (''label'', JString label),
              (''default'', opt_string d)]"
| "field_document (IntegerField key label d lo hi) =
     JObject [(''type'', JString ''integer''), (''key'', JString key), (''label'', JString label),
              (''default'', JInt (sint d)), (''min'', JInt (sint lo)), (''max'', JInt (sint hi))]"
| "field_document (FloatField key label d lo hi) =
     JObject [(''type'', JString ''float''), (''key'', JString key), (''label'', JString label),
              (''default'', JNum d), (''min'', JNum lo), (''max'', JNum hi)]"
| "field_document (BooleanField key label d) =
     JObject [(''type'', JString ''boolean''), (''key'', JString key), (''label'', JString label),
              (''default'', JBool d)]"
| "field_document (FilePathField key label d mode) =
     JObject [(''type'', JString ''filepath''), (''key'', JString key), (''label'', JString label),
              (''default'', opt_string d), (''mode'', JInt mode)]"

text \<open>Modelled from the spec: the document of a schema, part of the missing body of
  \<^verbatim>\<open>rtsyn_ui_schema_to_json\<close>: an object with a \<open>fields\<close> array of the entries.\<close>

definition schema_document :: "RTSynConfigField list \<Rightarrow> json" where
  "schema_document fs = JObject [(''fields'', JArray (map field_document fs))]"

text \<open>Modelled from the spec: the body of \<^verbatim>\<open>rtsyn_ui_schema_to_json\<close> is missing.  It
  produces the serialized document of the schema in a string of its own and neither
  consumes nor changes the schema; an allocation failure is signalled by a null result.\<close>

definition rtsyn_ui_schema_to_json :: "ptr \<Rightarrow> state \<Rightarrow> ptr result" where
  "rtsyn_ui_schema_to_json schema s =
     (case schema of
        NULL \<Rightarrow> Inl Unspecified
      | Ptr sa \<Rightarrow>
          (case heap s sa of
             Some (Schema fs) \<Rightarrow>
               (case malloc s of
                  (None, s1) \<Rightarrow> Inr (NULL, s1)
                | (Some (a, junk), s1) \<Rightarrow> Inr (Ptr a, store a (Document (schema_document fs)) s1))
           | _ \<Rightarrow> Inl Unspecified))"

text \<open>Modelled from the spec: the body of \<^verbatim>\<open>rtsyn_ui_schema_free\<close> is missing.  It releases
  the schema and with it every field the schema owns.\<close>

definition rtsyn_ui_schema_free :: "ptr \<Rightarrow> state \<Rightarrow> unit result" where
  "rtsyn_ui_schema_free schema s =
     (case schema of
        NULL \<Rightarrow> Inl Unspecified
      | Ptr sa \<Rightarrow>
          (case heap s sa of
             Some (Schema fs) \<Rightarrow> Inr ((), s\<lparr>heap := (heap s)(sa := None)\<rparr>)
           | _ \<Rightarrow> Inl Unspecified))"

text \<open>Modelled from the spec: the document of a behavior descriptor, the missing body of
  \<^verbatim>\<open>rtsyn_behavior_to_json\<close>: an object with the attributes \<open>supports_start_stop\<close>,
  \<open>supports_restart\<close>, \<open>extendable_inputs\<close> (\<open>none\<close>, \<open>manual\<close> or \<open>auto\<close>),
  \<open>extendable_inputs_pattern\<close> (present only for \<open>auto\<close>, the pattern as given),
  \<open>loads_started\<close> and \<open>connection_dependent\<close>.  A flag is true when its argument is not 0.\<close>

definition behavior_document ::
  "int \<Rightarrow> int \<Rightarrow> int \<Rightarrow> string option \<Rightarrow> int \<Rightarrow> int \<Rightarrow> json option" where
  "behavior_document supports_start_stop supports_restart extendable_inputs_type
       extendable_inputs_pattern loads_started connection_dependent =
     (let before = [(''supports_start_stop'', JBool (supports_start_stop \<noteq> 0)),
                    (''supports_restart'', JBool (supports_restart \<noteq> 0))];
          after = [(''loads_started'', JBool (loads_started \<noteq> 0)),
                   (''connection_dependent'', JBool (connection_dependent \<noteq> 0))]
      in if extendable_inputs_type = RTSYN_EXTENDABLE_NONE
         then Some (JObject (before @ [(''extendable_inputs'', JString ''none'')] @ after))
         else if extendable_inputs_type = RTSYN_EXTENDABLE_MANUAL
         then Some (JObject (before @ [(''extendable_inputs'', JString ''manual'')] @ after))
         else if extendable_inputs_type = RTSYN_EXTENDABLE_AUTO
         then Some (JObject (before @
                 [(''extendable_inputs'', JString ''auto''),
                  (''extendable_inputs_pattern'', opt_string extendable_inputs_pattern)] @ after))
         else None)"

text \<open>Modelled from the spec: the body of \<^verbatim>\<open>rtsyn_behavior_to_json\<close> is missing.  It returns
  the document of the descriptor in a string of its own and touches nothing else; an
  allocation failure is signalled by a null result.\<close>

definition rtsyn_behavior_to_json ::
  "int \<Rightarrow> int \<Rightarrow> int \<Rightarrow> string option \<Rightarrow> int \<Rightarrow> int \<Rightarrow> state \<Rightarrow> ptr result" where
  "rtsyn_behavior_to_json supports_start_stop supports_restart extendable_inputs_type
       extendable_inputs_pattern loads_started connection_dependent s =
     (case behavior_document supports_start_stop supports_restart extendable_inputs_type
             extendable_inputs_pattern loads_started connection_dependent of
        None \<Rightarrow> Inl Unspecified
      | Some doc \<Rightarrow>
          (case malloc s of
             (None, s1) \<Rightarrow> Inr (NULL, s1)
           | (Some (a, junk), s1) \<Rightarrow> Inr (Ptr a, store a (Document doc) s1)))"

text \<open>
  Reading a document: the member of an object, the key of a field, the keys of the entries
  of the \<open>fields\<close> array in the order of the array.
\<close>

definition member :: "string \<Rightarrow> json \<Rightarrow> json option" where
  "member k d = (case d of JObject kvs \<Rightarrow> map_of kvs k | _ \<Rightarrow> None)"

fun field_key :: "RTSynConfigField \<Rightarrow> string" where
  "field_key (TextField key label d) = key"
| "field_key (IntegerField key label d lo hi) = key"
| "field_key (FloatField key label d lo hi) = key"
| "field_key (BooleanField key label d) = key"
| "field_key (FilePathField key label d mode) = key"

definition listed_keys :: "json \<Rightarrow> json option list" where
  "listed_keys d =
     (case member ''fields'' d of
        Some (JArray entries) \<Rightarrow> map (member ''key'') entries
      | _ \<Rightarrow> [])"




section \<open>The example plugin\<close>

text \<open>\<^verbatim>\<open>void* create(uint64_t id)\<close>\<close>

definition create :: "64 word \<Rightarrow> state \<Rightarrow> ptr result" where
  "create i s =
     (case malloc s of
        (None, s1) \<Rightarrow> Inr (NULL, s1)
      | (Some (a, junk), s1) \<Rightarrow>
          Inr (Ptr a,
               store a (Instance \<lparr>id_field = i, amplitude = 1.0, frequency = 440.0,
                                   output_path = junk[0 := NUL]\<rparr>) s1))"

text \<open>\<^verbatim>\<open>void destroy(void* instance)\<close>\<close>

definition destroy :: "ptr \<Rightarrow> state \<Rightarrow> unit result" where
  "destroy inst s =
     (if inst \<noteq> NULL
      then (case free inst s of Inl e \<Rightarrow> Inl e | Inr s1 \<Rightarrow> Inr ((), s1))
      else Inr ((), s))"

text \<open>The three metadata queries; none of them reads its argument.\<close>

definition meta_text :: string where
  \<open>meta_text =
     ''{'' @
       ''"name":"Example C Plugin",'' @
       ''"fixed_vars":[],'' @
       ''"default_vars":['' @
         ''{"amplitude":1.0},'' @
         ''{"frequency":440.0}'' @
       '']'' @
     ''}''\<close>

definition meta_json :: "ptr \<Rightarrow> state \<Rightarrow> ptr result" where
  "meta_json inst s = Inr (strdup meta_text s)"

definition inputs_json :: "ptr \<Rightarrow> state \<Rightarrow> ptr result" where
  "inputs_json inst s = Inr (strdup ''[]'' s)"

definition outputs_text :: string where
  \<open>outputs_text = ''['' @ ''{"id":"signal"}'' @ '']''\<close>

definition outputs_json :: "ptr \<Rightarrow> state \<Rightarrow> ptr result" where
  "outputs_json inst s = Inr (strdup outputs_text s)"

text \<open>\<^verbatim>\<open>char* ui_schema_json(void* instance)\<close>: the schema is built, serialized and freed.\<close>

definition ui_schema_json :: "ptr \<Rightarrow> state \<Rightarrow> ptr result" where
  "ui_schema_json inst s0 =
     and_then (rtsyn_ui_schema_new s0) (\<lambda>schema s.
     and_then (rtsyn_ui_field_float ''amplitude'' ''Amplitude'' 1.0 0.0 10.0 s)
       (\<lambda>amplitude_field s.
     and_then (rtsyn_ui_schema_add_field schema amplitude_field s) (\<lambda>u s.
     and_then (rtsyn_ui_field_float ''frequency'' ''Frequency (Hz)'' 440.0 20.0 20000.0 s)
       (\<lambda>freq_field s.
     and_then (rtsyn_ui_schema_add_field schema freq_field s) (\<lambda>u s.
     and_then (rtsyn_ui_field_filepath ''output_path'' ''Output File'' None
                 RTSYN_FILE_MODE_SAVE s)
       (\<lambda>path_field s.
     and_then (rtsyn_ui_schema_add_field schema path_field s) (\<lambda>u s.
     and_then (rtsyn_ui_schema_to_json schema s) (\<lambda>json s.
     and_then (rtsyn_ui_schema_free schema s) (\<lambda>u s.
     Inr (json, s))))))))))"

text \<open>\<^verbatim>\<open>char* behavior_json(void* instance)\<close>\<close>

definition behavior_json :: "ptr \<Rightarrow> state \<Rightarrow> ptr result" where
  "behavior_json inst s = rtsyn_behavior_to_json 1 1 RTSYN_EXTENDABLE_NONE None 1 0 s"

text \<open>\<^verbatim>\<open>int process(void* instance, uint64_t tick, double period_seconds)\<close>\<close>

definition process :: "ptr \<Rightarrow> 64 word \<Rightarrow> double \<Rightarrow> state \<Rightarrow> int result" where
  "process inst tick period_seconds s = Inr (0, s)"

text \<open>\<^verbatim>\<open>void set_input(void* instance, const char* port, double value)\<close>\<close>

definition set_input :: "ptr \<Rightarrow> string \<Rightarrow> double \<Rightarrow> state \<Rightarrow> unit result" where
  "set_input inst port v s = Inr ((), s)"

text \<open>
  \<^verbatim>\<open>double get_output(void* instance, const char* port)\<close>.  The port is a C string.  The
  instance is read only on the \<^verbatim>\<open>"signal"\<close> branch; reading through a pointer to no live
  instance is a fault.
\<close>

definition get_output :: "ptr \<Rightarrow> string \<Rightarrow> state \<Rightarrow> double result" where
  "get_output inst port s =
     (if strcmp port ''signal'' = 0
      then (case inst of
              NULL \<Rightarrow> Inl InvalidPointer
            | Ptr a \<Rightarrow>
                (case heap s a of
                   Some (Instance plugin) \<Rightarrow> Inr (amplitude plugin, s)
                 | _ \<Rightarrow> Inl InvalidPointer))
      else Inr (0.0, s))"

text \<open>\<^verbatim>\<open>int set_config_json(void* instance, const char* json)\<close>\<close>

definition set_config_json :: "ptr \<Rightarrow> string \<Rightarrow> state \<Rightarrow> int result" where
  "set_config_json inst js s = Inr (0, s)"

subsection \<open>Call sequences of the host\<close>

text \<open>
  The scenario \<^verbatim>\<open>create(42)\<close>, \<^verbatim>\<open>set_config_json(instance, {"amplitude":2.0})\<close>,
  \<^verbatim>\<open>process(instance, 0, 0.02)\<close>, \<^verbatim>\<open>get_output(instance, "signal")\<close>; it yields the two
  statuses and the output value.
\<close>

definition config_scenario :: "state \<Rightarrow> (int \<times> int \<times> double) result" where
  \<open>config_scenario s =
     and_then (create 42 s) (\<lambda>inst s1.
     and_then (set_config_json inst ''{"amplitude":2.0}'' s1) (\<lambda>status s2.
     and_then (process inst 0 0.02 s2) (\<lambda>rc s3.
     and_then (get_output inst ''signal'' s3) (\<lambda>out s4.
     Inr ((status, rc, out), s4)))))\<close>

text \<open>The calls that may come between two metadata queries.\<close>

datatype call =
    SetConfigJson ptr string
  | SetInput ptr string double
  | Process ptr "64 word" double

fun do_call :: "call \<Rightarrow> state \<Rightarrow> unit result" where
  "do_call (SetConfigJson inst js) s = and_then (set_config_json inst js s) (\<lambda>status s1. Inr ((), s1))"
| "do_call (SetInput inst port v) s = set_input inst port v s"
| "do_call (Process inst tick period_seconds) s =
     and_then (process inst tick period_seconds s) (\<lambda>rc s1. Inr ((), s1))"

fun run :: "call list \<Rightarrow> state \<Rightarrow> unit result" where
  "run [] s = Inr ((), s)"
| "run (c # cs) s = and_then (do_call c s) (\<lambda>u s1. run cs s1)"

definition metadata_queries :: "((ptr \<Rightarrow> state \<Rightarrow> ptr result) \<times> string) list" where
  \<open>metadata_queries =
     [(meta_json,
         ''{"name":"Example C Plugin","fixed_vars":[],"default_vars":[{"amplitude":1.0},{"frequency":440.0}]}''),
      (inputs_json, ''[]''),
      (outputs_json, ''[{"id":"signal"}]'')]\<close>

text \<open>Successive \<^verbatim>\<open>rtsyn_ui_schema_add_field\<close> calls on one schema, in the order of the list.\<close>

fun add_fields :: "ptr \<Rightarrow> ptr list \<Rightarrow> state \<Rightarrow> unit result" where
  "add_fields schema [] s = Inr ((), s)"
| "add_fields schema (field # rest) s =
     and_then (rtsyn_ui_schema_add_field schema field s) (\<lambda>u s1. add_fields schema rest s1)"

text \<open>The fields that a list of addresses points to (\<open>None\<close> where there is no field).\<close>

definition fields_at :: "state \<Rightarrow> addr list \<Rightarrow> RTSynConfigField option list" where
  "fields_at s fas = map (\<lambda>a. case heap s a of Some (ConfigField f) \<Rightarrow> Some f | _ \<Rightarrow> None) fas"

text \<open>
  Three states to run the calls on: one with a live instance, one with a schema of one field
  and two fields not yet added, one with an empty heap; the allocator has one block left in
  the first two and five in the third.
\<close>

definition instance_state :: state where
  "instance_state =
     \<lparr>heap = [7 \<mapsto> Instance \<lparr>id_field = 42, amplitude = 1.0, frequency = 440.0,
                               output_path = []\<rparr>],
      grants = [Block 8 []]\<rparr>"

definition schema_state :: state where
  "schema_state =
     \<lparr>heap = [1 \<mapsto> Schema [TextField ''name'' ''Name'' None],
              2 \<mapsto> ConfigField (BooleanField ''on'' ''On'' True),
              3 \<mapsto> ConfigField (IntegerField ''n'' ''N'' 5 0 9)],
      grants = [Block 4 []]\<rparr>"

definition empty_state :: state where
  "empty_state =
     \<lparr>heap = Map.empty,
      grants = [Block 1 [], Block 2 [], Block 3 [], Block 4 [], Block 5 []]\<rparr>"


section \<open>Properties\<close>

subsection \<open>C strings\<close>

lemma c_str_Nil [simp]: "c_str [] = []"
  by (simp add: c_str_def)

lemma c_str_Cons: "c_str (x # xs) = (if x = NUL then [] else x # c_str xs)"
  by (simp add: c_str_def)

lemma of_char_zero_iff: "(of_char c :: int) = 0 \<longleftrightarrow> c = NUL"
proof -
  have "(of_char NUL :: int) = 0"
    by (simp add: NUL_def)
  then have "(of_char c :: int) = 0 \<longleftrightarrow> (of_char c :: int) = of_char NUL"
    by simp
  then show ?thesis
    by simp
qed

lemma strcmp_zero_iff: "strcmp xs ys = 0 \<longleftrightarrow> c_str xs = c_str ys"
  by (induction xs ys rule: strcmp.induct) (auto simp: c_str_Cons of_char_zero_iff)

lemma c_str_signal: "c_str ''signal'' = ''signal''"
  by (simp add: c_str_Cons NUL_def)

lemma c_str_terminated: "c_str (buf[0 := NUL]) = []"
  by (cases buf) (simp_all add: c_str_Cons)

subsection \<open>Instances: creation, release, port reads, configuration\<close>

text \<open>
  C5.  For every 64-bit id, \<open>create\<close> returns, without fault, the null pointer exactly when
  the allocator refuses the block (and then the heap is as before); otherwise it returns the
  address of a block that now holds an instance bound to that id, with amplitude 1.0,
  frequency 440.0 and an output path that reads as the empty string.  The block is a new
  one when the allocator hands out no live block.
\<close>

theorem create_initialises_defaults:
  "\<exists>p s'. create i s = Inr (p, s') \<and>
      (p = NULL \<longleftrightarrow> fst (malloc s) = None) \<and>
      (case p of
         NULL \<Rightarrow> heap s' = heap s
       | Ptr a \<Rightarrow>
           (\<exists>path. heap s' = (heap s)(a \<mapsto> Instance \<lparr>id_field = i, amplitude = 1.0,
                        frequency = 440.0, output_path = path\<rparr>) \<and> c_str path = []) \<and>
           (allocator_ok s \<longrightarrow> heap s a = None))"
proof (cases "grants s" rule: grant_addrs.cases)
  case 1
  then show ?thesis
    by (simp add: create_def malloc_def)
next
  case (2 gs)
  then show ?thesis
    by (simp add: create_def malloc_def)
next
  case (3 a junk gs)
  have "c_str (junk[0 := NUL]) = []"
    by (rule c_str_terminated)
  with 3 show ?thesis
    by (auto simp add: create_def malloc_def store_def allocator_ok_def)
qed

theorem create_initialises_defaults_witness:
  "create 42 \<lparr>heap = Map.empty, grants = [Block 7 ''garbage'']\<rparr> =
     Inr (Ptr 7, \<lparr>heap = [7 \<mapsto> Instance \<lparr>id_field = 42, amplitude = 1.0, frequency = 440.0,
                                  output_path = NUL # ''arbage''\<rparr>],
                  grants = []\<rparr>) \<and>
   allocator_ok \<lparr>heap = Map.empty, grants = [Block 7 ''garbage'']\<rparr> \<and>
   c_str (NUL # ''arbage'') = []"
  using create_initialises_defaults [of 42 "\<lparr>heap = Map.empty, grants = [Block 7 ''garbage'']\<rparr>"]
  by (simp add: create_def malloc_def store_def allocator_ok_def c_str_Cons)

text \<open>
  C10.  \<open>destroy\<close> of the null pointer is a no-op without fault: the state is returned as it
  was.  A block is released only through a non-null argument: \<open>destroy\<close> of the address of a
  live block removes that block from the heap and nothing else.
\<close>

theorem destroy_null_is_noop:
  "destroy NULL s = Inr ((), s) \<and>
   (\<forall>a v. heap s a = Some v \<longrightarrow> destroy (Ptr a) s = Inr ((), s\<lparr>heap := (heap s)(a := None)\<rparr>))"
  by (simp add: destroy_def free_def)

theorem destroy_null_is_noop_witness:
  "destroy NULL instance_state = Inr ((), instance_state) \<and>
   heap instance_state 7 \<noteq> None \<and>
   destroy (Ptr 7) instance_state = Inr ((), \<lparr>heap = Map.empty, grants = [Block 8 []]\<rparr>)"
  using destroy_null_is_noop [of instance_state]
  by (simp add: instance_state_def)

text \<open>
  C4.  For every instance pointer (live or not) and every port whose name is not
  \<^verbatim>\<open>"signal"\<close>, \<open>get_output\<close> returns 0.0 without fault and leaves the state as it was.
\<close>

theorem get_output_unknown_port:
  "c_str port \<noteq> ''signal'' \<Longrightarrow> get_output inst port s = Inr (0.0, s)"
  by (simp add: get_output_def strcmp_zero_iff c_str_signal)

theorem get_output_unknown_port_witness:
  "c_str ''nonexistent'' \<noteq> ''signal'' \<and>
   get_output NULL ''nonexistent'' \<lparr>heap = Map.empty, grants = []\<rparr>
     = Inr (0.0, \<lparr>heap = Map.empty, grants = []\<rparr>)"
proof -
  have h: "c_str ''nonexistent'' \<noteq> ''signal''"
    by (simp add: c_str_Cons NUL_def)
  show ?thesis
    using h get_output_unknown_port [OF h, of NULL "\<lparr>heap = Map.empty, grants = []\<rparr>"]
    by simp
qed

text \<open>
  C9.  For every instance pointer and every payload, \<open>set_config_json\<close> returns status 0
  without fault and the whole state, the instance's fields included, is as before.
\<close>

theorem set_config_json_accepts_and_ignores:
  "set_config_json inst js s = Inr (0, s)"
  by (simp add: set_config_json_def)

text \<open>
  C1.  The scenario as the specification states it would yield 2.0; run from a state whose
  allocator grants one block it yields the statuses 0 and 0 and the output 1.0.
\<close>

theorem config_scenario_counterexample:
  "config_scenario \<lparr>heap = Map.empty, grants = [Block 7 ''garbage'']\<rparr> =
     Inr ((0, 0, 1.0),
          \<lparr>heap = [7 \<mapsto> Instance \<lparr>id_field = 42, amplitude = 1.0, frequency = 440.0,
                                    output_path = NUL # ''arbage''\<rparr>],
           grants = []\<rparr>) \<and>
   (1.0 :: double) \<noteq> 2.0"
  by (simp add: config_scenario_def and_then_def create_def malloc_def store_def
      set_config_json_def process_def get_output_def strcmp_zero_iff c_str_signal)

text \<open>
  C1, amended.  Whenever \<open>create\<close> obtains its block, the scenario runs without fault,
  \<open>set_config_json\<close> and \<open>process\<close> return 0, and \<open>get_output\<close> on \<^verbatim>\<open>"signal"\<close> returns the
  amplitude set by \<open>create\<close>, 1.0: the configuration document is accepted and not applied.
\<close>

theorem config_scenario_keeps_default:
  "grants s = Block a junk # gs \<Longrightarrow> \<exists>s'. config_scenario s = Inr ((0, 0, 1.0), s')"
  by (simp add: config_scenario_def and_then_def create_def malloc_def store_def
      set_config_json_def process_def get_output_def strcmp_zero_iff c_str_signal)

theorem config_scenario_keeps_default_witness:
  "grants \<lparr>heap = Map.empty, grants = [Block 7 ''garbage'']\<rparr> = Block 7 ''garbage'' # [] \<and>
   (\<exists>s'. config_scenario \<lparr>heap = Map.empty, grants = [Block 7 ''garbage'']\<rparr>
            = Inr ((0, 0, 1.0), s'))"
  using config_scenario_keeps_default
    [of "\<lparr>heap = Map.empty, grants = [Block 7 ''garbage'']\<rparr>" 7 "''garbage''" "[]"]
  by simp

subsection \<open>Metadata queries\<close>

lemma do_call_skip: "do_call c s = Inr ((), s)"
  by (cases c) (simp_all add: and_then_def set_config_json_def set_input_def process_def)

lemma run_skip: "run cs s = Inr ((), s)"
  by (induction cs) (simp_all add: and_then_def do_call_skip)

lemma strdup_cases:
  "strdup txt s = (p, s') \<Longrightarrow>
     (p = NULL \<longleftrightarrow> fst (malloc s) = None) \<and>
     (case p of
        NULL \<Rightarrow> heap s' = heap s
      | Ptr a \<Rightarrow> heap s' = (heap s)(a \<mapsto> CString (c_str txt)) \<and>
                 (allocator_ok s \<longrightarrow> heap s a = None))"
  by (cases "grants s" rule: grant_addrs.cases)
     (auto simp add: strdup_def malloc_def store_def allocator_ok_def)

lemma metadata_query_strdup:
  "(q, doc) \<in> set metadata_queries \<Longrightarrow>
     \<exists>t. c_str t = doc \<and> (\<forall>inst s. q inst s = Inr (strdup t s))"
  unfolding metadata_queries_def
  apply simp
  apply (elim disjE conjE)
    apply (rule exI [of _ meta_text])
    apply (simp add: meta_json_def fun_eq_iff meta_text_def c_str_Cons NUL_def)
   apply (rule exI [of _ "''[]''"])
   apply (simp add: inputs_json_def fun_eq_iff c_str_Cons NUL_def)
  apply (rule exI [of _ outputs_text])
  apply (simp add: outputs_json_def fun_eq_iff outputs_text_def c_str_Cons NUL_def)
  done

text \<open>
  C7.  Let \<open>q\<close> be one of \<open>meta_json\<close>, \<open>inputs_json\<close>, \<open>outputs_json\<close> and \<open>doc\<close> its document
  (the meta object naming "Example C Plugin" with empty \<open>fixed_vars\<close> and the defaults
  amplitude 1.0 and frequency 440.0; the empty array; the array of the one entry with id
  "signal").  Every sequence of \<open>set_config_json\<close>, \<open>set_input\<close> and \<open>process\<close> calls runs
  without fault and leaves the state as it was, so a query after it answers as before it.
  In every state and for every instance pointer the query runs without fault; it returns
  the null pointer exactly when the allocator refuses the block for the copy, and otherwise
  the address of a block holding exactly \<open>doc\<close>.  It changes no other block, and the block
  is a new one when the allocator hands out no live block: no instance is mutated.
\<close>

theorem metadata_queries_stable:
  "(q, doc) \<in> set metadata_queries \<Longrightarrow>
     run cs s = Inr ((), s) \<and>
     (\<exists>p s'. q inst s = Inr (p, s') \<and>
        (p = NULL \<longleftrightarrow> fst (malloc s) = None) \<and>
        (case p of
           NULL \<Rightarrow> heap s' = heap s
         | Ptr a \<Rightarrow> heap s' a = Some (CString doc) \<and>
                    (\<forall>b. b \<noteq> a \<longrightarrow> heap s' b = heap s b) \<and>
                    (allocator_ok s \<longrightarrow> heap s a = None)))"
proof -
  assume "(q, doc) \<in> set metadata_queries"
  then obtain t where ct: "c_str t = doc" and q: "\<And>inst s. q inst s = Inr (strdup t s)"
    using metadata_query_strdup by blast
  obtain p s1 where r: "strdup t s = (p, s1)"
    by (cases "strdup t s")
  from strdup_cases [OF r] ct have
    "(p = NULL \<longleftrightarrow> fst (malloc s) = None) \<and>
        (case p of
           NULL \<Rightarrow> heap s1 = heap s
         | Ptr a \<Rightarrow> heap s1 a = Some (CString doc) \<and>
                    (\<forall>b. b \<noteq> a \<longrightarrow> heap s1 b = heap s b) \<and>
                    (allocator_ok s \<longrightarrow> heap s a = None))"
    by (cases p) auto
  with q r show ?thesis
    by (simp add: run_skip)
qed

theorem metadata_queries_stable_witness:
  \<open>(outputs_json, ''[{"id":"signal"}]'') \<in> set metadata_queries \<and>
   run [SetConfigJson (Ptr 7) ''{"amplitude":2.0}'', SetInput (Ptr 7) ''gain'' 3.0,
        Process (Ptr 7) 0 0.02] instance_state
     = Inr ((), instance_state) \<and>
   outputs_json (Ptr 7) instance_state
     = Inr (Ptr 8,
            \<lparr>heap = [7 \<mapsto> Instance \<lparr>id_field = 42, amplitude = 1.0, frequency = 440.0,
                                      output_path = []\<rparr>,
                     8 \<mapsto> CString ''[{"id":"signal"}]''],
             grants = []\<rparr>)\<close>
proof -
  have h: \<open>(outputs_json, ''[{"id":"signal"}]'') \<in> set metadata_queries\<close>
    by (simp add: metadata_queries_def)
  show ?thesis
    using h metadata_queries_stable [OF h,
        of \<open>[SetConfigJson (Ptr 7) ''{"amplitude":2.0}'',
             SetInput (Ptr 7) ''gain'' 3.0, Process (Ptr 7) 0 0.02]\<close>
           instance_state "Ptr 7"]
    by (simp add: outputs_json_def outputs_text_def strdup_def malloc_def store_def
        c_str_Cons NUL_def instance_state_def)
qed

subsection \<open>The UI schema\<close>

lemma member_key: "member ''key'' (field_document f) = Some (JString (field_key f))"
  by (cases f) (simp_all add: member_def)

lemma member_fields: "member ''fields'' (JObject [(''fields'', v)]) = Some v"
  by (simp add: member_def)

lemma listed_keys_schema_document:
  "listed_keys (schema_document fs) = map (\<lambda>f. Some (JString (field_key f))) fs"
  by (simp add: listed_keys_def schema_document_def member_fields member_key)

lemma fields_at_live:
  "fields_at s fas = map Some fs \<Longrightarrow> a \<in> set fas \<Longrightarrow> \<exists>f. heap s a = Some (ConfigField f)"
  by (induction fas arbitrary: fs)
     (auto simp: fields_at_def split: option.splits obj.splits)

lemma fields_at_cong:
  "(\<And>a. a \<in> set fas \<Longrightarrow> heap s' a = heap s a) \<Longrightarrow> fields_at s' fas = fields_at s fas"
  by (simp add: fields_at_def cong: map_cong)

lemma add_field_ok:
  "heap s sa = Some (Schema fs) \<Longrightarrow> heap s fa = Some (ConfigField f) \<Longrightarrow>
     rtsyn_ui_schema_add_field (Ptr sa) (Ptr fa) s =
       Inr ((), s\<lparr>heap := ((heap s)(fa := None))(sa \<mapsto> Schema (fs @ [f]))\<rparr>)"
  by (simp add: rtsyn_ui_schema_add_field_def)

lemma add_fields_ok:
  "heap s sa = Some (Schema fs0) \<Longrightarrow> distinct fas \<Longrightarrow> fields_at s fas = map Some fs \<Longrightarrow>
     \<exists>s'. add_fields (Ptr sa) (map Ptr fas) s = Inr ((), s') \<and>
          heap s' sa = Some (Schema (fs0 @ fs)) \<and> grants s' = grants s \<and>
          (\<forall>b. b \<noteq> sa \<and> b \<notin> set fas \<longrightarrow> heap s' b = heap s b)"
proof (induction fas arbitrary: s fs0 fs)
  case Nil
  then show ?case by (simp add: fields_at_def)
next
  case (Cons fa fas)
  from Cons.prems(3) obtain f fs' where fs: "fs = f # fs'"
    and f: "heap s fa = Some (ConfigField f)" and rest: "fields_at s fas = map Some fs'"
    by (cases fs) (auto simp: fields_at_def split: option.splits obj.splits)
  let ?s1 = "s\<lparr>heap := ((heap s)(fa := None))(sa \<mapsto> Schema (fs0 @ [f]))\<rparr>"
  have step: "rtsyn_ui_schema_add_field (Ptr sa) (Ptr fa) s = Inr ((), ?s1)"
    using Cons.prems(1) f by (rule add_field_ok)
  have sa_notin: "sa \<notin> set fas"
    using fields_at_live [OF rest, of sa] Cons.prems(1) by auto
  have fa_notin: "fa \<notin> set fas" using Cons.prems(2) by simp
  have "fields_at ?s1 fas = fields_at s fas"
    using sa_notin fa_notin by (intro fields_at_cong) auto
  with rest have rest1: "fields_at ?s1 fas = map Some fs'"
    by simp
  have sch1: "heap ?s1 sa = Some (Schema (fs0 @ [f]))" by simp
  have d: "distinct fas" using Cons.prems(2) by simp
  from Cons.IH [OF sch1 d rest1] obtain s' where
    r: "add_fields (Ptr sa) (map Ptr fas) ?s1 = Inr ((), s')" and
    h: "heap s' sa = Some (Schema ((fs0 @ [f]) @ fs'))" and
    g: "grants s' = grants ?s1" and
    o: "\<forall>b. b \<noteq> sa \<and> b \<notin> set fas \<longrightarrow> heap s' b = heap ?s1 b"
    by blast
  show ?case
    using step r h g o fs by (auto simp: and_then_def)
qed

lemma to_json_ok:
  "heap s sa = Some (Schema fs) \<Longrightarrow> grants s = Block a junk # gs \<Longrightarrow>
     rtsyn_ui_schema_to_json (Ptr sa) s =
       Inr (Ptr a, s\<lparr>heap := (heap s)(a \<mapsto> Document (schema_document fs)), grants := gs\<rparr>)"
  by (simp add: rtsyn_ui_schema_to_json_def malloc_def store_def)

lemma ui_schema_json_ok:
  "allocator_ok s \<Longrightarrow>
   grants s = Block a1 j1 # Block a2 j2 # Block a3 j3 # Block a4 j4 # Block a5 j5 # gs \<Longrightarrow>
   ui_schema_json inst s =
     Inr (Ptr a5, s\<lparr>heap := (heap s)(a5 \<mapsto> Document (schema_document
            [FloatField ''amplitude'' ''Amplitude'' 1.0 0.0 10.0,
             FloatField ''frequency'' ''Frequency (Hz)'' 440.0 20.0 20000.0,
             FilePathField ''output_path'' ''Output File'' None RTSYN_FILE_MODE_SAVE])),
          grants := gs\<rparr>)"
  apply (simp add: allocator_ok_def ui_schema_json_def and_then_def rtsyn_ui_schema_new_def
    rtsyn_ui_field_float_def rtsyn_ui_field_filepath_def new_field_def malloc_def store_def
    rtsyn_ui_schema_add_field_def rtsyn_ui_schema_to_json_def rtsyn_ui_schema_free_def)
  apply (auto simp: fun_eq_iff)
  done


lemma to_json_cases:
  "heap s sa = Some (Schema fs) \<Longrightarrow>
     \<exists>p s1. rtsyn_ui_schema_to_json (Ptr sa) s = Inr (p, s1) \<and>
       (p = NULL \<longleftrightarrow> fst (malloc s) = None) \<and>
       (case p of
          NULL \<Rightarrow> heap s1 = heap s
        | Ptr a \<Rightarrow> heap s1 = (heap s)(a \<mapsto> Document (schema_document fs)) \<and>
                   (allocator_ok s \<longrightarrow> heap s a = None))"
  by (cases "grants s" rule: grant_addrs.cases)
     (auto simp add: rtsyn_ui_schema_to_json_def malloc_def store_def allocator_ok_def)

text \<open>
  C2.  Let a schema hold the fields \<open>fs0\<close>, and let \<open>fas\<close> be the addresses of distinct
  fields \<open>fs\<close>.  Adding them one by one succeeds, and the document that
  \<open>rtsyn_ui_schema_to_json\<close> then produces is the object whose \<open>fields\<close> array lists the
  entries of \<open>fs0\<close> followed by those of \<open>fs\<close>, in the order of the calls.  The document
  of the example plugin's \<open>ui_schema_json\<close>, when its five allocations are granted, lists the
  keys amplitude, frequency, output_path in this order.
\<close>

theorem schema_to_json_preserves_order:
  "(heap s sa = Some (Schema fs0) \<and> distinct fas \<and> fields_at s fas = map Some fs \<and>
    grants s = Block a junk # gs \<longrightarrow>
      (\<exists>s1 s2. add_fields (Ptr sa) (map Ptr fas) s = Inr ((), s1) \<and>
         rtsyn_ui_schema_to_json (Ptr sa) s1 = Inr (Ptr a, s2) \<and>
         heap s2 a = Some (Document (schema_document (fs0 @ fs))) \<and>
         listed_keys (schema_document (fs0 @ fs)) =
           map (\<lambda>f. Some (JString (field_key f))) (fs0 @ fs))) \<and>
   (allocator_ok t \<and>
    grants t = Block a1 j1 # Block a2 j2 # Block a3 j3 # Block a4 j4 # Block a5 j5 # gt \<longrightarrow>
      (\<exists>t1 doc. ui_schema_json inst t = Inr (Ptr a5, t1) \<and>
         heap t1 a5 = Some (Document doc) \<and>
         listed_keys doc =
           [Some (JString ''amplitude''), Some (JString ''frequency''),
            Some (JString ''output_path'')]))"
proof (intro conjI impI)
  assume "heap s sa = Some (Schema fs0) \<and> distinct fas \<and> fields_at s fas = map Some fs \<and>
    grants s = Block a junk # gs"
  then have live: "heap s sa = Some (Schema fs0)" and d: "distinct fas"
    and f: "fields_at s fas = map Some fs" and g: "grants s = Block a junk # gs"
    by simp_all
  from add_fields_ok [OF live d f] obtain s1 where
    r: "add_fields (Ptr sa) (map Ptr fas) s = Inr ((), s1)" and
    h: "heap s1 sa = Some (Schema (fs0 @ fs))" and g1: "grants s1 = grants s"
    by blast
  from g g1 have "grants s1 = Block a junk # gs"
    by simp
  from to_json_ok [OF h this] r
  show "\<exists>s1 s2. add_fields (Ptr sa) (map Ptr fas) s = Inr ((), s1) \<and>
         rtsyn_ui_schema_to_json (Ptr sa) s1 = Inr (Ptr a, s2) \<and>
         heap s2 a = Some (Document (schema_document (fs0 @ fs))) \<and>
         listed_keys (schema_document (fs0 @ fs)) =
           map (\<lambda>f. Some (JString (field_key f))) (fs0 @ fs)"
    by (simp add: listed_keys_schema_document)
next
  assume "allocator_ok t \<and>
    grants t = Block a1 j1 # Block a2 j2 # Block a3 j3 # Block a4 j4 # Block a5 j5 # gt"
  then have "allocator_ok t"
    and "grants t = Block a1 j1 # Block a2 j2 # Block a3 j3 # Block a4 j4 # Block a5 j5 # gt"
    by simp_all
  from ui_schema_json_ok [OF this]
  show "\<exists>t1 doc. ui_schema_json inst t = Inr (Ptr a5, t1) \<and>
         heap t1 a5 = Some (Document doc) \<and>
         listed_keys doc =
           [Some (JString ''amplitude''), Some (JString ''frequency''),
            Some (JString ''output_path'')]"
    by (simp add: listed_keys_schema_document)
qed


theorem schema_to_json_preserves_order_witness:
  "(heap schema_state 1 = Some (Schema [TextField ''name'' ''Name'' None]) \<and>
    distinct [3, 2 :: addr] \<and>
    fields_at schema_state [3, 2] =
      map Some [IntegerField ''n'' ''N'' 5 0 9, BooleanField ''on'' ''On'' True] \<and>
    grants schema_state = Block 4 [] # []) \<and>
   (\<exists>s1 s2. add_fields (Ptr 1) (map Ptr [3, 2]) schema_state = Inr ((), s1) \<and>
      rtsyn_ui_schema_to_json (Ptr 1) s1 = Inr (Ptr 4, s2) \<and>
      heap s2 4 = Some (Document (schema_document
        [TextField ''name'' ''Name'' None, IntegerField ''n'' ''N'' 5 0 9,
         BooleanField ''on'' ''On'' True])) \<and>
      listed_keys (schema_document
        [TextField ''name'' ''Name'' None, IntegerField ''n'' ''N'' 5 0 9,
         BooleanField ''on'' ''On'' True]) =
        [Some (JString ''name''), Some (JString ''n''), Some (JString ''on'')]) \<and>
   (allocator_ok empty_state \<and>
    grants empty_state = Block 1 [] # Block 2 [] # Block 3 [] # Block 4 [] # Block 5 [] # []) \<and>
   (\<exists>t1 doc. ui_schema_json NULL empty_state = Inr (Ptr 5, t1) \<and>
      heap t1 5 = Some (Document doc) \<and>
      listed_keys doc =
        [Some (JString ''amplitude''), Some (JString ''frequency''),
         Some (JString ''output_path'')])"
proof -
  have h1: "heap schema_state 1 = Some (Schema [TextField ''name'' ''Name'' None]) \<and>
    distinct [3, 2 :: addr] \<and>
    fields_at schema_state [3, 2] =
      map Some [IntegerField ''n'' ''N'' 5 0 9, BooleanField ''on'' ''On'' True] \<and>
    grants schema_state = Block 4 [] # []"
    by (simp add: schema_state_def fields_at_def)
  have h2: "allocator_ok empty_state \<and>
    grants empty_state = Block 1 [] # Block 2 [] # Block 3 [] # Block 4 [] # Block 5 [] # []"
    by (simp add: empty_state_def allocator_ok_def)
  show ?thesis
    using h1 h2
      schema_to_json_preserves_order [of schema_state 1 "[TextField ''name'' ''Name'' None]"
        "[3, 2]" "[IntegerField ''n'' ''N'' 5 0 9, BooleanField ''on'' ''On'' True]" 4 "[]" "[]"
        empty_state 1 "[]" 2 "[]" 3 "[]" 4 "[]" 5 "[]" "[]" NULL]
    by simp
qed

text \<open>
  C6.  Serializing a live schema neither consumes nor changes it.  The call returns without
  fault, with the null pointer exactly when the allocation of the string is refused; every
  block that was live is unchanged, the schema among them; serializing it again yields an
  equal document; and any live field can still be added to it.
\<close>

theorem schema_to_json_keeps_schema:
  "allocator_ok s \<Longrightarrow> heap s sa = Some (Schema fs) \<Longrightarrow>
     \<exists>p s1. rtsyn_ui_schema_to_json (Ptr sa) s = Inr (p, s1) \<and>
       (p = NULL \<longleftrightarrow> fst (malloc s) = None) \<and>
       (\<forall>a. p = Ptr a \<longrightarrow> heap s1 a = Some (Document (schema_document fs))) \<and>
       (\<forall>b. heap s b \<noteq> None \<longrightarrow> heap s1 b = heap s b) \<and>
       heap s1 sa = Some (Schema fs) \<and>
       (\<exists>p2 s2. rtsyn_ui_schema_to_json (Ptr sa) s1 = Inr (p2, s2) \<and>
          (\<forall>a2. p2 = Ptr a2 \<longrightarrow> heap s2 a2 = Some (Document (schema_document fs)))) \<and>
       (\<forall>fa f. heap s1 fa = Some (ConfigField f) \<longrightarrow>
          (\<exists>s3. rtsyn_ui_schema_add_field (Ptr sa) (Ptr fa) s1 = Inr ((), s3) \<and>
                heap s3 sa = Some (Schema (fs @ [f]))))"
proof -
  assume ok: "allocator_ok s" and live: "heap s sa = Some (Schema fs)"
  from to_json_cases [OF live] obtain p s1 where
    r: "rtsyn_ui_schema_to_json (Ptr sa) s = Inr (p, s1)" and
    n: "p = NULL \<longleftrightarrow> fst (malloc s) = None" and
    c: "case p of
          NULL \<Rightarrow> heap s1 = heap s
        | Ptr a \<Rightarrow> heap s1 = (heap s)(a \<mapsto> Document (schema_document fs)) \<and>
                   (allocator_ok s \<longrightarrow> heap s a = None)"
    by (elim exE conjE)
  have doc: "\<forall>a. p = Ptr a \<longrightarrow> heap s1 a = Some (Document (schema_document fs))"
    using c by auto
  have same: "\<forall>b. heap s b \<noteq> None \<longrightarrow> heap s1 b = heap s b"
    using c ok by (cases p) auto
  have live1: "heap s1 sa = Some (Schema fs)"
    using same live by simp
  from to_json_cases [OF live1] have again:
    "\<exists>p2 s2. rtsyn_ui_schema_to_json (Ptr sa) s1 = Inr (p2, s2) \<and>
          (\<forall>a2. p2 = Ptr a2 \<longrightarrow> heap s2 a2 = Some (Document (schema_document fs)))"
    by (elim exE conjE) (rule exI, rule exI, auto)
  have more: "\<forall>fa f. heap s1 fa = Some (ConfigField f) \<longrightarrow>
          (\<exists>s3. rtsyn_ui_schema_add_field (Ptr sa) (Ptr fa) s1 = Inr ((), s3) \<and>
                heap s3 sa = Some (Schema (fs @ [f])))"
    using live1 by (simp add: add_field_ok)
  show ?thesis
    apply (rule exI [of _ p], rule exI [of _ s1])
    apply (insert r n doc same live1 again more)
    apply (intro conjI; assumption)
    done
qed


theorem schema_to_json_keeps_schema_witness:
  "allocator_ok schema_state \<and>
   heap schema_state 1 = Some (Schema [TextField ''name'' ''Name'' None]) \<and>
   rtsyn_ui_schema_to_json (Ptr 1) schema_state =
     Inr (Ptr 4,
          \<lparr>heap = [1 \<mapsto> Schema [TextField ''name'' ''Name'' None],
                   2 \<mapsto> ConfigField (BooleanField ''on'' ''On'' True),
                   3 \<mapsto> ConfigField (IntegerField ''n'' ''N'' 5 0 9),
                   4 \<mapsto> Document (schema_document [TextField ''name'' ''Name'' None])],
           grants = []\<rparr>)"
proof -
  have h1: "allocator_ok schema_state"
    by (simp add: schema_state_def allocator_ok_def)
  have h2: "heap schema_state 1 = Some (Schema [TextField ''name'' ''Name'' None])"
    by (simp add: schema_state_def)
  show ?thesis
    using h1 h2 schema_to_json_keeps_schema [OF h1 h2]
    by (simp add: schema_state_def rtsyn_ui_schema_to_json_def malloc_def store_def)
qed

subsection \<open>The behavior descriptor\<close>

text \<open>
  C3.  For every combination of arguments, a document that \<open>rtsyn_behavior_to_json\<close> returns
  has the key \<open>extendable_inputs_pattern\<close> if and only if the extendable-inputs type is
  \<open>RTSYN_EXTENDABLE_AUTO\<close>; for each of the three types the document is returned whenever
  the allocation is granted.  The document of the example plugin's \<open>behavior_json\<close> has
  \<open>supports_start_stop\<close> true, \<open>supports_restart\<close> true, \<open>extendable_inputs\<close> \<open>none\<close> with no
  pattern key, \<open>loads_started\<close> true and \<open>connection_dependent\<close> false.
\<close>

theorem behavior_pattern_iff_auto:
  "(\<forall>a s1. rtsyn_behavior_to_json ss sr t pat ls cd s = Inr (Ptr a, s1) \<longrightarrow>
      (\<exists>doc. heap s1 a = Some (Document doc) \<and>
         (member ''extendable_inputs_pattern'' doc \<noteq> None \<longleftrightarrow> t = RTSYN_EXTENDABLE_AUTO))) \<and>
   (t \<in> {RTSYN_EXTENDABLE_NONE, RTSYN_EXTENDABLE_MANUAL, RTSYN_EXTENDABLE_AUTO} \<and>
    grants s = Block b junk # gs \<longrightarrow>
      (\<exists>s1. rtsyn_behavior_to_json ss sr t pat ls cd s = Inr (Ptr b, s1))) \<and>
   (grants s = Block b junk # gs \<longrightarrow>
      behavior_json inst s =
        Inr (Ptr b, s\<lparr>heap := (heap s)(b \<mapsto> Document (JObject
               [(''supports_start_stop'', JBool True), (''supports_restart'', JBool True),
                (''extendable_inputs'', JString ''none''),
                (''loads_started'', JBool True), (''connection_dependent'', JBool False)])),
             grants := gs\<rparr>))"
proof (intro conjI allI impI)
  fix a s1
  assume r: "rtsyn_behavior_to_json ss sr t pat ls cd s = Inr (Ptr a, s1)"
  then obtain doc where d: "behavior_document ss sr t pat ls cd = Some doc"
    by (auto simp: rtsyn_behavior_to_json_def split: option.splits)
  with r have "heap s1 a = Some (Document doc)"
    by (cases "grants s" rule: grant_addrs.cases)
       (auto simp: rtsyn_behavior_to_json_def malloc_def store_def)
  moreover have "member ''extendable_inputs_pattern'' doc \<noteq> None \<longleftrightarrow> t = RTSYN_EXTENDABLE_AUTO"
    using d
    by (auto simp add: behavior_document_def member_def Let_def RTSYN_EXTENDABLE_NONE_def
        RTSYN_EXTENDABLE_MANUAL_def RTSYN_EXTENDABLE_AUTO_def opt_string_def
        split: option.splits if_splits)
  ultimately show "\<exists>doc. heap s1 a = Some (Document doc) \<and>
         (member ''extendable_inputs_pattern'' doc \<noteq> None \<longleftrightarrow> t = RTSYN_EXTENDABLE_AUTO)"
    by blast
next
  assume "t \<in> {RTSYN_EXTENDABLE_NONE, RTSYN_EXTENDABLE_MANUAL, RTSYN_EXTENDABLE_AUTO} \<and>
    grants s = Block b junk # gs"
  then show "\<exists>s1. rtsyn_behavior_to_json ss sr t pat ls cd s = Inr (Ptr b, s1)"
    by (auto simp: rtsyn_behavior_to_json_def behavior_document_def malloc_def Let_def
      RTSYN_EXTENDABLE_NONE_def RTSYN_EXTENDABLE_MANUAL_def RTSYN_EXTENDABLE_AUTO_def)
next
  assume "grants s = Block b junk # gs"
  then show "behavior_json inst s =
        Inr (Ptr b, s\<lparr>heap := (heap s)(b \<mapsto> Document (JObject
               [(''supports_start_stop'', JBool True), (''supports_restart'', JBool True),
                (''extendable_inputs'', JString ''none''),
                (''loads_started'', JBool True), (''connection_dependent'', JBool False)])),
             grants := gs\<rparr>)"
    by (simp add: behavior_json_def rtsyn_behavior_to_json_def behavior_document_def
        malloc_def store_def RTSYN_EXTENDABLE_NONE_def)
qed


theorem behavior_pattern_iff_auto_witness:
  "(RTSYN_EXTENDABLE_AUTO \<in>
      {RTSYN_EXTENDABLE_NONE, RTSYN_EXTENDABLE_MANUAL, RTSYN_EXTENDABLE_AUTO} \<and>
    grants \<lparr>heap = Map.empty, grants = [Block 5 []]\<rparr> = Block 5 [] # []) \<and>
   (\<exists>s1 doc. rtsyn_behavior_to_json 1 0 RTSYN_EXTENDABLE_AUTO (Some ''in_{}'') 0 1
                \<lparr>heap = Map.empty, grants = [Block 5 []]\<rparr> = Inr (Ptr 5, s1) \<and>
      heap s1 5 = Some (Document doc) \<and>
      member ''extendable_inputs_pattern'' doc \<noteq> None) \<and>
   behavior_json NULL \<lparr>heap = Map.empty, grants = [Block 5 []]\<rparr> =
     Inr (Ptr 5,
          \<lparr>heap = [5 \<mapsto> Document (JObject
               [(''supports_start_stop'', JBool True), (''supports_restart'', JBool True),
                (''extendable_inputs'', JString ''none''),
                (''loads_started'', JBool True), (''connection_dependent'', JBool False)])],
           grants = []\<rparr>)"
proof -
  have h: "RTSYN_EXTENDABLE_AUTO \<in>
      {RTSYN_EXTENDABLE_NONE, RTSYN_EXTENDABLE_MANUAL, RTSYN_EXTENDABLE_AUTO} \<and>
    grants \<lparr>heap = Map.empty, grants = [Block 5 []]\<rparr> = Block 5 [] # []"
    by simp
  show ?thesis
    using h behavior_pattern_iff_auto [of 1 0 RTSYN_EXTENDABLE_AUTO "Some ''in_{}''" 0 1
      "\<lparr>heap = Map.empty, grants = [Block 5 []]\<rparr>" 5 "[]" "[]" NULL]
    by auto
qed

subsection \<open>Ownership of the returned strings\<close>
















end
